theory Spec2Isabelle
  imports Main "HOL-Library.AList"
begin

section \<open>Python values\<close>

text \<open>
  A Python \<open>str\<close> is a sequence of Unicode code points, so a character is its code point
  and \<open>len\<close> is the length of the list. Identifiers that the program fixes itself (filter
  identifiers, table tags, glyph names, suffixes, file names) are HOL strings. A \<open>dict\<close> is an
  association list in insertion order with distinct keys: \<open>d.get(k)\<close> is \<open>map_of d k\<close>
  and \<open>d[k] = v\<close> is \<open>AList.update k v d\<close>.
\<close>

type_synonym pychar = nat
type_synonym pystr = "pychar list"
type_synonym bytes = "nat list"
type_synonym glyph_name = string

definition py_ord :: "pychar \<Rightarrow> int" where
  "py_ord c = int c"

definition str_lit :: "string \<Rightarrow> pystr" where
  "str_lit s = map of_char s"

fun join :: "pystr \<Rightarrow> pystr list \<Rightarrow> pystr" where
  "join sep [] = []"
| "join sep [x] = x"
| "join sep (x # y # ys) = x @ sep @ join sep (y # ys)"

datatype error =
    NotFound string
  | AssertionError string
  | TypeError
  | KeyError
  | IndexError
  | AttributeError
  | ValueError
  | UnboundLocalError
  | ExternalError string

definition bind_res :: "error + 'a \<Rightarrow> ('a \<Rightarrow> error + 'b) \<Rightarrow> error + 'b" where
  "bind_res m f = (case m of Inl e \<Rightarrow> Inl e | Inr x \<Rightarrow> f x)"

section \<open>The request and the fonts\<close>

text \<open>
  \<open>request.files.get("font_file")\<close> is a werkzeug \<open>FileStorage\<close> or \<open>None\<close>; a
  \<open>FileStorage\<close> is truthy when its file name is not empty.
\<close>

record file_storage =
  filename :: pystr
  file_content :: bytes

record request =
  files :: "(string \<times> file_storage) list"
  form :: "(string \<times> pystr) list"

text \<open>
  What the program reads of a parsed \<open>TTFont\<close>: the tags of the tables present, the best
  Unicode cmap (\<open>getBestCmap()\<close>, which is \<open>None\<close> for a font with no Unicode cmap),
  \<open>head.unitsPerEm\<close>, the best family and subfamily names and \<open>hmtx.metrics\<close>
  (glyph name to advance width and left side bearing).
\<close>

record tt_font =
  tables :: "string list"
  best_cmap :: "(int \<times> glyph_name) list option"
  head_unitsPerEm :: int
  best_family_name :: "pystr option"
  best_subfamily_name :: "pystr option"
  hmtx_metrics :: "(glyph_name \<times> int \<times> int) list"

datatype pen_cmd =
    MoveTo "int \<times> int"
  | LineTo "int \<times> int"
  | CurveTo "(int \<times> int) list"
  | QCurveTo "(int \<times> int) list"
  | ClosePath
  | EndPath
  | AddComponent glyph_name

text \<open>
  A defcon glyph as \<open>newGlyph\<close> creates it: no unicode, width 0, an empty outline. The pen
  of a glyph appends to its outline. A list entry of the program may be \<open>None\<close>, so glyphs
  are keyed by an optional name.
\<close>

record glyph =
  glyph_name_of :: "glyph_name option"
  unicode :: "int option"
  width :: int
  outline :: "pen_cmd list"

record ufo_info =
  unitsPerEm :: "int option"
  familyName :: "pystr option"
  styleName :: "pystr option"
  opentype_info :: "(string \<times> pystr) list"

record ufo =
  info :: ufo_info
  glyphs :: "glyph_name option \<rightharpoonup> glyph"
  kerning :: "((glyph_name \<times> glyph_name) \<times> int) list"

text \<open>A filter returns defcon fonts or fontTools fonts; \<open>isinstance(font, Font)\<close> tells them apart.\<close>

datatype out_font = DefconFont ufo | OtherFont tt_font

definition Font :: ufo where
  "Font = \<lparr>info = \<lparr>unitsPerEm = None, familyName = None, styleName = None, opentype_info = []\<rparr>,
           glyphs = Map.empty, kerning = []\<rparr>"

definition newGlyph :: "glyph_name option \<Rightarrow> glyph" where
  "newGlyph name = \<lparr>glyph_name_of = name, unicode = None, width = 0, outline = []\<rparr>"

section \<open>The collaborators\<close>

text \<open>
  Everything \<open>process_font\<close> calls and does not define is a parameter: the iteration order of
  a Python set (unspecified by the language), \<open>int\<close> on a form value, the font parser, the
  helpers of \<open>tools.generic\<close>, the extractor package, the three filters and the \<open>save\<close>
  method of an output font. A collaborator that can raise returns a sum. The files are a map
  from names to contents; \<open>save\<close> takes the files as they are and returns the error it
  raised, if any, with the files as it left them.
\<close>

type_synonym file_system = "string \<rightharpoonup> bytes"

record env =
  set_iter :: "pystr \<Rightarrow> pystr"
  py_int :: "pystr \<Rightarrow> int option"
  TTFont :: "bytes \<Rightarrow> error + tt_font"
  get_components_in_subsetted_text :: "tt_font \<Rightarrow> glyph_name option list \<Rightarrow> error + glyph_name list"
  extractCFFGlyph :: "tt_font \<Rightarrow> glyph_name \<Rightarrow> error + pen_cmd list"
  extractCFF2Glyph :: "tt_font \<Rightarrow> glyph_name \<Rightarrow> error + pen_cmd list"
  extractGlyfGlyph :: "tt_font \<Rightarrow> glyph_name \<Rightarrow> error + pen_cmd list"
  extractOpenTypeInfo :: "tt_font \<Rightarrow> ufo_info \<Rightarrow> ufo_info"
  extract_kerning_hb :: "bytes \<Rightarrow> (glyph_name \<times> int) list \<Rightarrow> pystr option
                          \<Rightarrow> (int \<times> glyph_name) list \<Rightarrow> error + ((glyph_name \<times> glyph_name) \<times> int) list"
  rasterize :: "ufo \<Rightarrow> tt_font \<Rightarrow> bytes \<Rightarrow> glyph_name option list \<Rightarrow> int \<Rightarrow> error + out_font"
  rotorize :: "ufo \<Rightarrow> glyph_name option list \<Rightarrow> (glyph_name \<times> int) list \<Rightarrow> tt_font \<Rightarrow> int
                \<Rightarrow> error + out_font list"
  extrude_variable :: "ufo \<Rightarrow> glyph_name option list \<Rightarrow> int \<Rightarrow> error + out_font"
  rename_name_ufo :: "ufo \<Rightarrow> string \<Rightarrow> ufo"
  rename_name_ttfont :: "tt_font \<Rightarrow> string \<Rightarrow> tt_font"
  compile_font :: "out_font \<Rightarrow> bytes"
  b64encode :: "bytes \<Rightarrow> pystr"
  save :: "out_font \<Rightarrow> string \<Rightarrow> file_system \<Rightarrow> error option \<times> file_system"

section \<open>The module's tables\<close>

definition suffix_name_map :: "(string \<times> string list) list" where
  "suffix_name_map =
     [(''rotorizer'', [''Rotorized Underlay'', ''Rotorized Overlay'']),
      (''rasterizer'', [''Rasterized'']),
      (''extruder'', [''Extruded''])]"

definition ranges :: "(int \<times> int) list" where
  "ranges = [(32, 126)]"

fun in_ranges_loop :: "(int \<times> int) list \<Rightarrow> int \<Rightarrow> bool" where
  "in_ranges_loop [] code_point = False"
| "in_ranges_loop ((start, end') # rest) code_point =
     (if start \<le> code_point \<and> code_point \<le> end' then True else in_ranges_loop rest code_point)"

definition is_in_ranges :: "int \<Rightarrow> bool" where
  "is_in_ranges code_point = in_ranges_loop ranges code_point"

section \<open>Glyph selection (lines 77 to 91)\<close>

text \<open>\<open>cmap_reversed = {v: k for k, v in cmap.items()}\<close>: a later code point replaces an
  earlier one of the same glyph, and the glyph keeps the place of its first occurrence.\<close>

definition reverse_cmap :: "(int \<times> glyph_name) list \<Rightarrow> (glyph_name \<times> int) list" where
  "reverse_cmap cmap = fold (\<lambda>(k, v) d. AList.update v k d) cmap []"

text \<open>
  Download mode appends the glyph of every pair of \<open>cmap_reversed\<close> whose code point is in
  the ranges. Preview mode maps every element of \<open>set(preview_string)\<close> through
  \<open>cmap.get(ord(char), None)\<close>; \<open>set(None)\<close> raises \<open>TypeError\<close>.
\<close>

definition select_glyphs ::
  "env \<Rightarrow> bool \<Rightarrow> (int \<times> glyph_name) list \<Rightarrow> (glyph_name \<times> int) list \<Rightarrow> pystr option
     \<Rightarrow> error + glyph_name option list" where
  "select_glyphs env process_for_download cmap cmap_reversed preview_string =
     (if process_for_download
      then Inr (map (\<lambda>(glyph_name, unicode_value). Some glyph_name)
                  (filter (\<lambda>(glyph_name, unicode_value). is_in_ranges unicode_value) cmap_reversed))
      else case preview_string of
             None \<Rightarrow> Inl TypeError
           | Some s \<Rightarrow> Inr (map (\<lambda>char. map_of cmap (py_ord char)) (set_iter env s)))"

text \<open>\<open>glyph_names_to_process.extend(components)\<close> appends what the helper returns.\<close>

definition extend_components ::
  "env \<Rightarrow> tt_font \<Rightarrow> glyph_name option list \<Rightarrow> error + glyph_name option list" where
  "extend_components env tt glyph_names_to_process =
     bind_res (get_components_in_subsetted_text env tt glyph_names_to_process)
       (\<lambda>components. Inr (glyph_names_to_process @ map Some components))"

section \<open>The minimal font (lines 93 to 110)\<close>

definition extract_outline :: "env \<Rightarrow> tt_font \<Rightarrow> glyph_name \<Rightarrow> error + pen_cmd list" where
  "extract_outline env tt name =
     (if ''CFF '' \<in> set (tables tt) then extractCFFGlyph env tt name
      else if ''CFF2'' \<in> set (tables tt) then extractCFF2Glyph env tt name
      else if ''glyf'' \<in> set (tables tt) then extractGlyfGlyph env tt name
      else Inr [])"

text \<open>
  The body of the loop over \<open>glyph_names_to_process\<close>: the glyph it builds, and the
  font with that glyph under its name. \<open>hmtx.metrics[glyph_name]\<close> raises \<open>KeyError\<close>
  for a name that is not a key, and \<open>None\<close> never is one.
\<close>

definition make_glyph ::
  "env \<Rightarrow> string \<Rightarrow> tt_font \<Rightarrow> (glyph_name \<times> int) list \<Rightarrow> glyph_name option \<Rightarrow> error + glyph" where
  "make_glyph env filter_identifier tt cmap_reversed name =
     (let g = (newGlyph name)\<lparr>unicode := (case name of None \<Rightarrow> None | Some n \<Rightarrow> map_of cmap_reversed n)\<rparr>
      in if filter_identifier \<in> set [''extruder'']
         then (case name of
                 None \<Rightarrow> Inl KeyError
               | Some n \<Rightarrow>
                   (case map_of (hmtx_metrics tt) n of
                      None \<Rightarrow> Inl KeyError
                    | Some m \<Rightarrow>
                        bind_res (extract_outline env tt n)
                          (\<lambda>cmds. Inr (g\<lparr>width := fst m, outline := cmds\<rparr>))))
         else Inr g)"

definition add_glyph ::
  "env \<Rightarrow> string \<Rightarrow> tt_font \<Rightarrow> (glyph_name \<times> int) list \<Rightarrow> glyph_name option \<Rightarrow> ufo \<Rightarrow> error + ufo" where
  "add_glyph env filter_identifier tt cmap_reversed name u =
     bind_res (make_glyph env filter_identifier tt cmap_reversed name)
       (\<lambda>g. Inr (u\<lparr>glyphs := (glyphs u)(name \<mapsto> g)\<rparr>))"

fun add_glyphs ::
  "env \<Rightarrow> string \<Rightarrow> tt_font \<Rightarrow> (glyph_name \<times> int) list \<Rightarrow> glyph_name option list \<Rightarrow> ufo \<Rightarrow> error + ufo" where
  "add_glyphs env filter_identifier tt cmap_reversed [] u = Inr u"
| "add_glyphs env filter_identifier tt cmap_reversed (name # names) u =
     (case add_glyph env filter_identifier tt cmap_reversed name u of
        Inl e \<Rightarrow> Inl e
      | Inr u' \<Rightarrow> add_glyphs env filter_identifier tt cmap_reversed names u')"

definition new_ufo :: "tt_font \<Rightarrow> bool \<Rightarrow> ufo" where
  "new_ufo tt process_for_download =
     (let u = Font\<lparr>info := (info Font)\<lparr>unitsPerEm := Some (head_unitsPerEm tt)\<rparr>\<rparr>
      in if process_for_download
         then u\<lparr>info := (info u)\<lparr>familyName := best_family_name tt, styleName := best_subfamily_name tt\<rparr>\<rparr>
         else u)"

section \<open>Validation and the state before the filter runs (lines 60 to 110)\<close>

definition validate :: "string \<Rightarrow> request \<Rightarrow> error + file_storage \<times> pystr option" where
  "validate filter_identifier req =
     (if filter_identifier \<notin> set [''rasterizer'', ''rotorizer'', ''extruder'']
      then Inl (NotFound ''Filter not found'')
      else case map_of (files req) ''font_file'' of
             None \<Rightarrow> Inl (AssertionError ''Font file is required'')
           | Some f \<Rightarrow>
               if filename f = [] then Inl (AssertionError ''Font file is required'')
               else (case map_of (form req) ''preview_string'' of
                       None \<Rightarrow> Inr (f, None)
                     | Some s \<Rightarrow>
                         if s \<noteq> [] \<and> length s > 30
                         then Inl (AssertionError ''Preview string is too long'')
                         else Inr (f, Some s)))"

text \<open>The local variables of \<open>process_font\<close> when the loop over the glyphs has ended.\<close>

record locals =
  font_file :: bytes
  preview_string :: "pystr option"
  tt :: tt_font
  cmap :: "(int \<times> glyph_name) list"
  cmap_reversed :: "(glyph_name \<times> int) list"
  glyph_names_to_process :: "glyph_name option list"
  ufo_font :: ufo

definition prepare :: "env \<Rightarrow> string \<Rightarrow> request \<Rightarrow> bool \<Rightarrow> error + locals" where
  "prepare env filter_identifier req process_for_download =
     bind_res (validate filter_identifier req) (\<lambda>(f, ps).
     bind_res (TTFont env (file_content f)) (\<lambda>t.
       case best_cmap t of
         None \<Rightarrow> Inl AttributeError
       | Some cm \<Rightarrow>
           bind_res (select_glyphs env process_for_download cm (reverse_cmap cm) ps) (\<lambda>selected.
           bind_res (extend_components env t selected) (\<lambda>names.
           bind_res (add_glyphs env filter_identifier t (reverse_cmap cm) names
                       (new_ufo t process_for_download)) (\<lambda>u.
             Inr \<lparr>font_file = file_content f, preview_string = ps, tt = t, cmap = cm,
                  cmap_reversed = reverse_cmap cm, glyph_names_to_process = names,
                  ufo_font = u\<rparr>)))))"

section \<open>The filter and the renaming (lines 112 to 153)\<close>

definition form_int :: "env \<Rightarrow> request \<Rightarrow> string \<Rightarrow> int \<Rightarrow> error + int" where
  "form_int env req key dflt =
     (case map_of (form req) key of
        None \<Rightarrow> Inr dflt
      | Some s \<Rightarrow> (case py_int env s of None \<Rightarrow> Inl ValueError | Some n \<Rightarrow> Inr n))"

definition widths_of :: "tt_font \<Rightarrow> glyph_name option list \<Rightarrow> (glyph_name \<times> int) list" where
  "widths_of t names = map (\<lambda>(k, v). (k, fst v)) (filter (\<lambda>(k, v). Some k \<in> set names) (hmtx_metrics t))"

definition merge_kerning ::
  "((glyph_name \<times> glyph_name) \<times> int) list \<Rightarrow> ufo \<Rightarrow> ufo" where
  "merge_kerning extracted_kerning u =
     u\<lparr>kerning := fold (\<lambda>(k, v) d. AList.update k v d) extracted_kerning (kerning u)\<rparr>"

definition run_filter :: "env \<Rightarrow> string \<Rightarrow> request \<Rightarrow> locals \<Rightarrow> error + out_font list" where
  "run_filter env filter_identifier req l =
     (if filter_identifier = ''rasterizer''
      then bind_res (form_int env req ''resolution'' 30) (\<lambda>resolution.
           bind_res (rasterize env (ufo_font l) (tt l) (font_file l) (glyph_names_to_process l) resolution)
             (\<lambda>font. Inr [font]))
      else if filter_identifier = ''rotorizer''
      then bind_res (form_int env req ''depth'' 200) (\<lambda>depth.
             rotorize env (ufo_font l) (glyph_names_to_process l) (cmap_reversed l) (tt l) depth)
      else if filter_identifier = ''extruder''
      then bind_res (form_int env req ''angle'' 330) (\<lambda>angle.
           let u = (ufo_font l)\<lparr>info := extractOpenTypeInfo env (tt l) (info (ufo_font l))\<rparr>;
               widths = widths_of (tt l) (glyph_names_to_process l)
           in bind_res (extract_kerning_hb env (font_file l) widths (preview_string l) (cmap l))
                (\<lambda>extracted_kerning.
           bind_res (extrude_variable env (merge_kerning extracted_kerning u) (glyph_names_to_process l) angle)
             (\<lambda>font. Inr [font])))
      else Inl UnboundLocalError)"

definition rename_font :: "env \<Rightarrow> out_font \<Rightarrow> string \<Rightarrow> out_font" where
  "rename_font env font suffix =
     (case font of
        DefconFont u \<Rightarrow> DefconFont (rename_name_ufo env u suffix)
      | OtherFont t \<Rightarrow> OtherFont (rename_name_ttfont env t suffix))"

text \<open>The loop \<open>for f, font in enumerate(output)\<close>; the index \<open>f\<close> is the second argument.\<close>

fun rename_loop :: "env \<Rightarrow> string list \<Rightarrow> nat \<Rightarrow> out_font list \<Rightarrow> error + out_font list" where
  "rename_loop env suffixes f [] = Inr []"
| "rename_loop env suffixes f (font # rest) =
     (if f < length suffixes
      then (let suffix = suffixes ! f;
                font' = (if suffix \<noteq> [] then rename_font env font suffix else font)
            in case rename_loop env suffixes (Suc f) rest of
                 Inl e \<Rightarrow> Inl e
               | Inr rest' \<Rightarrow> Inr (font' # rest'))
      else Inl IndexError)"

definition rename_outputs :: "env \<Rightarrow> string \<Rightarrow> out_font list \<Rightarrow> error + out_font list" where
  "rename_outputs env filter_identifier output =
     (case output of
        [] \<Rightarrow> Inr []
      | _ # _ \<Rightarrow> (case map_of suffix_name_map filter_identifier of
                   None \<Rightarrow> Inl KeyError
                 | Some suffixes \<Rightarrow> rename_loop env suffixes 0 output))"

section \<open>The response (lines 156 to 186)\<close>

text \<open>
  Modelled from the spec: \<open>fonts_to_base64\<close> of \<open>tools.generic\<close> is not among the sources.
  The spec (section 2, ResponseAssembler) has it serialise the output fonts to a
  transport-safe encoding: one base64 string for each font, in order.
\<close>

definition fonts_to_base64 :: "env \<Rightarrow> out_font list \<Rightarrow> pystr list" where
  "fonts_to_base64 env output = map (\<lambda>font. b64encode env (compile_font env font)) output"

record response =
  resp_fonts :: "pystr list"
  resp_warnings :: "pystr list option"
  resp_preview_string :: "pystr option"

definition missing_glyphs_of :: "(int \<times> glyph_name) list \<Rightarrow> pystr \<Rightarrow> pystr" where
  "missing_glyphs_of cm s = filter (\<lambda>character. map_of cm (py_ord character) = None) s"

definition warnings_of :: "pystr \<Rightarrow> pystr list" where
  "warnings_of missing_glyphs =
     (if missing_glyphs \<noteq> []
      then [str_lit ''Your font is missing these characters: ''
              @ join (str_lit '', '') (map (\<lambda>c. [c]) missing_glyphs)]
      else [])"

definition make_response :: "bool \<Rightarrow> locals \<Rightarrow> pystr list \<Rightarrow> error + response" where
  "make_response process_for_download l fonts =
     (if process_for_download
      then Inr \<lparr>resp_fonts = fonts, resp_warnings = None, resp_preview_string = None\<rparr>
      else case preview_string l of
             None \<Rightarrow> Inl TypeError
           | Some s \<Rightarrow>
               (let missing_glyphs = missing_glyphs_of (cmap l) s
                in Inr \<lparr>resp_fonts = fonts,
                        resp_warnings = Some (warnings_of missing_glyphs),
                        resp_preview_string = Some (filter (\<lambda>char. char \<notin> set missing_glyphs) s)\<rparr>))"

section \<open>\<open>process_font\<close>\<close>

text \<open>
  \<open>output[0].save("output.ttf")\<close> comes after the renaming and before the response is
  built; \<open>output[0]\<close> raises \<open>IndexError\<close> on an empty list, and an error of \<open>save\<close>
  ends the request with the files as \<open>save\<close> left them. The files are threaded through
  this call only: what the other collaborators write is not part of the model.
\<close>

definition renamed_output :: "env \<Rightarrow> string \<Rightarrow> request \<Rightarrow> bool \<Rightarrow> error + locals \<times> out_font list" where
  "renamed_output env filter_identifier req process_for_download =
     bind_res (prepare env filter_identifier req process_for_download) (\<lambda>l.
     bind_res (run_filter env filter_identifier req l) (\<lambda>output.
     bind_res (rename_outputs env filter_identifier output) (\<lambda>renamed. Inr (l, renamed))))"

definition process_font ::
  "env \<Rightarrow> string \<Rightarrow> request \<Rightarrow> bool \<Rightarrow> file_system \<Rightarrow> (error + response) \<times> file_system" where
  "process_font env filter_identifier req process_for_download fs =
     (case renamed_output env filter_identifier req process_for_download of
        Inl e \<Rightarrow> (Inl e, fs)
      | Inr (l, output) \<Rightarrow>
          (let fonts = fonts_to_base64 env output
                 @ (if filter_identifier \<in> set [''extruder''] then [b64encode env (font_file l)] else [])
           in case output of
                [] \<Rightarrow> (Inl IndexError, fs)
              | first # _ \<Rightarrow>
                  (case save env first ''output.ttf'' fs of
                     (Some e, fs') \<Rightarrow> (Inl e, fs')
                   | (None, fs') \<Rightarrow> (make_response process_for_download l fonts, fs'))))"

section \<open>A test font and stand-ins for the collaborators\<close>

text \<open>
  A font with three glyphs and no composite glyph, in which the code points of \<open>A\<close> and
  \<open>a\<close> both map to the glyph \<open>A\<close>, and collaborators that do as little as their types
  allow. They give the concrete runs below something to compute on.
\<close>

definition demo_cmap :: "(int \<times> glyph_name) list" where
  "demo_cmap = [(65, ''A''), (66, ''B''), (97, ''A'')]"

definition demo_tt :: tt_font where
  "demo_tt = \<lparr>tables = [''cmap'', ''glyf'', ''head'', ''hmtx'', ''name''],
              best_cmap = Some demo_cmap,
              head_unitsPerEm = 1000,
              best_family_name = Some [68, 101, 109, 111],
              best_subfamily_name = None,
              hmtx_metrics = [(''.notdef'', 500, 0), (''A'', 600, 10), (''B'', 620, 20)]\<rparr>"

definition demo_bytes :: bytes where
  "demo_bytes = [0, 1, 0, 0]"

definition demo_outline :: "pen_cmd list" where
  "demo_outline = [MoveTo (0, 0), LineTo (100, 0), LineTo (50, 100), ClosePath]"

definition demo_env :: env where
  "demo_env =
     \<lparr>set_iter = remdups,
      py_int = (\<lambda>s. None),
      TTFont = (\<lambda>b. if b = demo_bytes then Inr demo_tt else Inl (ExternalError ''not a font'')),
      get_components_in_subsetted_text = (\<lambda>t names. Inr []),
      extractCFFGlyph = (\<lambda>t name. Inr []),
      extractCFF2Glyph = (\<lambda>t name. Inr []),
      extractGlyfGlyph = (\<lambda>t name. Inr demo_outline),
      extractOpenTypeInfo = (\<lambda>t i. i\<lparr>opentype_info := [(''openTypeNameVersion'', [49])]\<rparr>),
      extract_kerning_hb =
        (\<lambda>b widths content cm. Inr (if content = None then [] else [((''A'', ''B''), - 20)])),
      rasterize = (\<lambda>u t b names resolution. Inr (OtherFont t)),
      rotorize = (\<lambda>u names cr t depth. Inr [DefconFont u, DefconFont u]),
      extrude_variable = (\<lambda>u names angle. Inr (DefconFont u)),
      rename_name_ufo = (\<lambda>u suffix. u\<lparr>info := (info u)\<lparr>styleName := Some (str_lit suffix)\<rparr>\<rparr>),
      rename_name_ttfont = (\<lambda>t suffix. t\<lparr>best_subfamily_name := Some (str_lit suffix)\<rparr>),
      compile_font = (\<lambda>font. case font of DefconFont u \<Rightarrow> [1] | OtherFont t \<Rightarrow> [2]),
      b64encode = (\<lambda>b. b),
      save = (\<lambda>font name fs.
                (None, fs(name \<mapsto> (case font of DefconFont u \<Rightarrow> [1] | OtherFont t \<Rightarrow> [2]))))\<rparr>"


definition demo_request :: "bytes \<Rightarrow> pystr option \<Rightarrow> request" where
  "demo_request b ps =
     \<lparr>files = [(''font_file'', \<lparr>filename = [102], file_content = b\<rparr>)],
      form = (case ps of None \<Rightarrow> [] | Some s \<Rightarrow> [(''preview_string'', s)])\<rparr>"



section \<open>Basic facts\<close>

lemma bind_res_Inl [simp]: "bind_res (Inl e) f = Inl e"
  by (simp add: bind_res_def)

lemma bind_res_Inr [simp]: "bind_res (Inr x) f = f x"
  by (simp add: bind_res_def)

lemma bind_res_eq_Inr: "bind_res m f = Inr y \<longleftrightarrow> (\<exists>x. m = Inr x \<and> f x = Inr y)"
  by (cases m) simp_all

lemma is_in_ranges_iff: "is_in_ranges u \<longleftrightarrow> 32 \<le> u \<and> u \<le> 126"
  by (simp add: is_in_ranges_def ranges_def)

lemma distinct_fold_update:
  "distinct (map fst d) \<Longrightarrow> distinct (map fst (fold (\<lambda>(k, v) d. AList.update v k d) cm d))"
  by (induction cm arbitrary: d) (auto simp: distinct_update)

lemma distinct_reverse_cmap: "distinct (map fst (reverse_cmap cm))"
  by (simp add: reverse_cmap_def distinct_fold_update)

lemma download_selection:
  "select_glyphs env True cm cr ps =
     Inr (map (Some \<circ> fst) (filter (\<lambda>p. is_in_ranges (snd p)) cr))"
  by (simp add: select_glyphs_def case_prod_unfold comp_def)


section \<open>Selection in preview mode\<close>

text \<open>
  Claim C1. In preview mode a character of the preview string that the font's cmap does not
  map is to be skipped from the selection, with no placeholder entry and no error. The
  program does not skip it: \<open>cmap.get(ord(char), None)\<close> puts \<open>None\<close> into
  \<open>glyph_names_to_process\<close>. On the test font, whose cmap has no Euro sign, the preview
  string \<open>A\<close>, Euro sign selects the glyph \<open>A\<close> and \<open>None\<close>, and for the extruder the
  request then ends in the \<open>KeyError\<close> of \<open>hmtx.metrics[None]\<close>, although the end of
  \<open>process_font\<close> is written to report such a character as a warning.
\<close>

theorem unmapped_preview_char_selects_None:
  "select_glyphs demo_env False demo_cmap (reverse_cmap demo_cmap) (Some [65, 8364])
     = Inr [Some ''A'', None]
   \<and> fst (process_font demo_env ''extruder'' (demo_request demo_bytes (Some [65, 8364])) False Map.empty)
     = Inl KeyError"
  by (simp add: process_font_def renamed_output_def prepare_def validate_def demo_request_def
     demo_env_def demo_tt_def select_glyphs_def demo_cmap_def py_ord_def extend_components_def
     reverse_cmap_def add_glyph_def make_glyph_def new_ufo_def Font_def newGlyph_def
     extract_outline_def)

section \<open>Selection in download mode\<close>

text \<open>
  Claim C6. In download mode a glyph is in the initial selection if and only if the reverse
  character map gives it a code point from 32 to 126, both included, and the selection is
  the same whatever preview string comes with the request: it is computed from the
  character map alone.
\<close>

theorem download_selection_by_range:
  "select_glyphs env True cm (reverse_cmap cm) ps = select_glyphs env True cm (reverse_cmap cm) ps'
   \<and> (\<exists>sel. select_glyphs env True cm (reverse_cmap cm) ps = Inr sel
        \<and> None \<notin> set sel
        \<and> (\<forall>g. Some g \<in> set sel
              \<longleftrightarrow> (\<exists>u. map_of (reverse_cmap cm) g = Some u \<and> 32 \<le> u \<and> u \<le> 126)))"
proof -
  let ?sel = "map (Some \<circ> fst) (filter (\<lambda>p. is_in_ranges (snd p)) (reverse_cmap cm))"
  have same: "select_glyphs env True cm (reverse_cmap cm) q = Inr ?sel" for q
    by (rule download_selection)
  have mem: "Some g \<in> set ?sel
      \<longleftrightarrow> (\<exists>u. map_of (reverse_cmap cm) g = Some u \<and> 32 \<le> u \<and> u \<le> 126)" for g
  proof -
    have "Some g \<in> set ?sel \<longleftrightarrow> (\<exists>u. (g, u) \<in> set (reverse_cmap cm) \<and> is_in_ranges u)"
      by force
    also have "\<dots> \<longleftrightarrow> (\<exists>u. map_of (reverse_cmap cm) g = Some u \<and> is_in_ranges u)"
      using distinct_reverse_cmap [of cm] by simp
    finally show ?thesis by (simp add: is_in_ranges_iff)
  qed
  have "None \<notin> set ?sel" by auto
  with same mem show ?thesis by simp
qed

section \<open>Facts about the stages\<close>

lemma validate_InrD:
  assumes "validate fid req = Inr (f, ps)"
  shows "fid \<in> set [''rasterizer'', ''rotorizer'', ''extruder'']
    \<and> map_of (files req) ''font_file'' = Some f \<and> filename f \<noteq> []
    \<and> ps = map_of (form req) ''preview_string''
    \<and> (\<forall>s. ps = Some s \<longrightarrow> length s \<le> 30)"
  using assms
  by (auto simp: validate_def split: if_splits option.splits)

lemma prepare_InrE:
  assumes "prepare env fid req dl = Inr l"
  obtains f ps t cm sel names u where
    "validate fid req = Inr (f, ps)"
    "TTFont env (file_content f) = Inr t"
    "best_cmap t = Some cm"
    "select_glyphs env dl cm (reverse_cmap cm) ps = Inr sel"
    "extend_components env t sel = Inr names"
    "add_glyphs env fid t (reverse_cmap cm) names (new_ufo t dl) = Inr u"
    "l = \<lparr>font_file = file_content f, preview_string = ps, tt = t, cmap = cm,
          cmap_reversed = reverse_cmap cm, glyph_names_to_process = names, ufo_font = u\<rparr>"
  using assms
  by (auto simp: prepare_def bind_res_eq_Inr split: option.splits prod.splits)

lemma make_glyph_plain:
  assumes "fid \<noteq> ''extruder''"
  shows "make_glyph env fid t cr n =
     Inr \<lparr>glyph_name_of = n,
          unicode = (case n of None \<Rightarrow> None | Some name \<Rightarrow> map_of cr name),
          width = 0, outline = []\<rparr>"
  using assms by (simp add: make_glyph_def newGlyph_def)

lemma make_glyph_extruder:
  assumes "make_glyph env ''extruder'' t cr n = Inr g"
  shows "\<exists>name m cmds. n = Some name \<and> map_of (hmtx_metrics t) name = Some m
           \<and> extract_outline env t name = Inr cmds
           \<and> g = \<lparr>glyph_name_of = n, unicode = map_of cr name, width = fst m, outline = cmds\<rparr>"
  using assms
  by (auto simp: make_glyph_def newGlyph_def bind_res_eq_Inr split: option.splits)

lemma add_glyph_InrD:
  assumes "add_glyph env fid t cr n u = Inr u'"
  shows "\<exists>g. make_glyph env fid t cr n = Inr g \<and> u' = u\<lparr>glyphs := (glyphs u)(n \<mapsto> g)\<rparr>"
  using assms by (auto simp: add_glyph_def bind_res_eq_Inr)

lemma add_glyphs_keeps:
  assumes "add_glyphs env fid t cr names u = Inr u'" and "n \<notin> set names"
  shows "glyphs u' n = glyphs u n \<and> info u' = info u \<and> kerning u' = kerning u"
  using assms
proof (induction names arbitrary: u)
  case Nil
  then show ?case by simp
next
  case (Cons a names)
  from Cons.prems(1) obtain u1 where
    step: "add_glyph env fid t cr a u = Inr u1" and
    rest: "add_glyphs env fid t cr names u1 = Inr u'"
    by (auto split: sum.splits)
  from Cons.prems(2) have "n \<noteq> a" "n \<notin> set names" by auto
  with Cons.IH [OF rest] add_glyph_InrD [OF step] show ?case by auto
qed

lemma add_glyphs_makes:
  assumes "add_glyphs env fid t cr names u = Inr u'" and "n \<in> set names"
  shows "\<exists>g. make_glyph env fid t cr n = Inr g \<and> glyphs u' n = Some g"
  using assms
proof (induction names arbitrary: u)
  case Nil
  then show ?case by simp
next
  case (Cons a names)
  from Cons.prems(1) obtain u1 where
    step: "add_glyph env fid t cr a u = Inr u1" and
    rest: "add_glyphs env fid t cr names u1 = Inr u'"
    by (auto split: sum.splits)
  show ?case
  proof (cases "n \<in> set names")
    case True
    with Cons.IH rest show ?thesis by blast
  next
    case False
    with Cons.prems(2) have "n = a" by simp
    with add_glyphs_keeps [OF rest False] add_glyph_InrD [OF step] show ?thesis by auto
  qed
qed

lemmas demo_defs =
  demo_env_def demo_tt_def demo_cmap_def demo_request_def demo_bytes_def demo_outline_def

lemmas run_defs =
  prepare_def validate_def select_glyphs_def extend_components_def reverse_cmap_def
  add_glyph_def make_glyph_def new_ufo_def Font_def newGlyph_def extract_outline_def py_ord_def
  is_in_ranges_def ranges_def

lemma demo_prepare_locals:
  assumes "prepare demo_env fid (demo_request demo_bytes ps) dl = Inr l"
  shows "tt l = demo_tt \<and> cmap l = demo_cmap \<and> cmap_reversed l = [(''A'', 97), (''B'', 66)]
       \<and> font_file l = demo_bytes \<and> preview_string l = ps"
  using assms
  by (rule prepare_InrE)
    (auto simp: validate_def demo_env_def demo_request_def demo_tt_def reverse_cmap_def demo_cmap_def
      split: if_splits option.splits)

section \<open>The glyphs of the minimal font\<close>

text \<open>
  Claim C2, as the program has it. The claim says that the outline of every glyph of the
  closed glyph set is extracted for all three filters and that only the copy of the advance
  width is kept for the extruder. In the program both stand under the same test
  \<open>filter_identifier in ["extruder"]\<close>: for the extruder every glyph of the list gets the
  advance width of \<open>hmtx\<close> and the outline that the extraction for the font's outline table
  (CFF before CFF2 before glyf) draws; for the rasterizer and the rotorizer the glyph is
  created with its unicode value only, width 0 and an empty outline.
\<close>

theorem outline_and_width_for_extruder_only:
  assumes "prepare env fid req dl = Inr l" and "n \<in> set (glyph_names_to_process l)"
  shows "if fid = ''extruder''
         then (\<exists>name m cmds. n = Some name
                 \<and> map_of (hmtx_metrics (tt l)) name = Some m
                 \<and> extract_outline env (tt l) name = Inr cmds
                 \<and> glyphs (ufo_font l) n
                     = Some \<lparr>glyph_name_of = n, unicode = map_of (cmap_reversed l) name,
                             width = fst m, outline = cmds\<rparr>)
         else glyphs (ufo_font l) n
                = Some \<lparr>glyph_name_of = n,
                        unicode = (case n of None \<Rightarrow> None | Some name \<Rightarrow> map_of (cmap_reversed l) name),
                        width = 0, outline = []\<rparr>"
proof -
  from assms(1) obtain f ps t cm sel names u where
    "validate fid req = Inr (f, ps)"
    "TTFont env (file_content f) = Inr t"
    "best_cmap t = Some cm"
    "select_glyphs env dl cm (reverse_cmap cm) ps = Inr sel"
    "extend_components env t sel = Inr names" and
    loop: "add_glyphs env fid t (reverse_cmap cm) names (new_ufo t dl) = Inr u" and
    l: "l = \<lparr>font_file = file_content f, preview_string = ps, tt = t, cmap = cm,
             cmap_reversed = reverse_cmap cm, glyph_names_to_process = names, ufo_font = u\<rparr>"
    by (rule prepare_InrE)
  have proj: "cmap_reversed l = reverse_cmap cm" "tt l = t" "ufo_font l = u"
    "glyph_names_to_process l = names"
    using l by simp_all
  from assms(2) have "n \<in> set names" by (simp add: proj)
  from add_glyphs_makes [OF loop this] obtain g where
    g: "make_glyph env fid t (reverse_cmap cm) n = Inr g" and stored: "glyphs u n = Some g"
    by blast
  show ?thesis
  proof (cases "fid = ''extruder''")
    case True
    with g have "make_glyph env ''extruder'' t (reverse_cmap cm) n = Inr g" by simp
    from make_glyph_extruder [OF this] stored True show ?thesis
      unfolding proj by auto
  next
    case False
    from make_glyph_plain [OF False, of env t "reverse_cmap cm" n] g stored False show ?thesis
      unfolding proj by simp
  qed
qed

theorem outline_and_width_for_extruder_only_witness:
  "map_sum id (\<lambda>l. glyphs (ufo_font l) (Some ''A''))
      (prepare demo_env ''rasterizer'' (demo_request demo_bytes (Some [65])) False)
     = Inr (Some \<lparr>glyph_name_of = Some ''A'', unicode = Some 97, width = 0, outline = []\<rparr>)
   \<and> map_sum id (\<lambda>l. glyphs (ufo_font l) (Some ''A''))
      (prepare demo_env ''extruder'' (demo_request demo_bytes (Some [65])) False)
     = Inr (Some \<lparr>glyph_name_of = Some ''A'', unicode = Some 97, width = 600,
                   outline = [MoveTo (0, 0), LineTo (100, 0), LineTo (50, 100), ClosePath]\<rparr>)"
proof -
  obtain l where l: "prepare demo_env ''rasterizer'' (demo_request demo_bytes (Some [65])) False = Inr l"
    by (simp add: run_defs demo_defs)
  have names: "Some ''A'' \<in> set (glyph_names_to_process l)"
    using l by (auto simp: run_defs demo_defs)
  obtain k where k: "prepare demo_env ''extruder'' (demo_request demo_bytes (Some [65])) False = Inr k"
    by (simp add: run_defs demo_defs)
  have names': "Some ''A'' \<in> set (glyph_names_to_process k)"
    using k by (auto simp: run_defs demo_defs)
  have "extract_outline demo_env demo_tt ''A'' = Inr demo_outline"
    by (simp add: extract_outline_def demo_env_def demo_tt_def)
  with outline_and_width_for_extruder_only [OF l names]
    outline_and_width_for_extruder_only [OF k names']
    demo_prepare_locals [OF l] demo_prepare_locals [OF k] l k
  show ?thesis
    by (auto simp: demo_tt_def demo_outline_def)
qed

text \<open>
  The claim C2 as stated fails for the rasterizer: the glyph \<open>A\<close> of the test font has an
  outline in its glyf table, and the glyph the program builds for it has none.
\<close>

theorem rasterizer_glyph_has_no_outline:
  "map_sum id (\<lambda>l. map_option outline (glyphs (ufo_font l) (Some ''A'')))
      (prepare demo_env ''rasterizer'' (demo_request demo_bytes (Some [65])) False)
     = Inr (Some [])
   \<and> extract_outline demo_env demo_tt ''A''
     = Inr [MoveTo (0, 0), LineTo (100, 0), LineTo (50, 100), ClosePath]"
  by (simp add: run_defs demo_defs)

section \<open>Validation of the preview string\<close>

lemma process_font_prepare_Inl:
  assumes "prepare env fid req dl = Inl e"
  shows "process_font env fid req dl fs = (Inl e, fs)"
  using assms by (simp add: process_font_def renamed_output_def)

lemma prepare_validate_Inl:
  assumes "validate fid req = Inl e"
  shows "prepare env fid req dl = Inl e"
  using assms by (simp add: prepare_def)

lemma prepare_TTFont_Inl:
  assumes "validate fid req = Inr (f, ps)" and "TTFont env (file_content f) = Inl e"
  shows "prepare env fid req dl = Inl e"
  using assms by (simp add: prepare_def)

text \<open>
  Claim C3, as the program has it. A preview string of more than 30 characters fails with
  the \<open>AssertionError\<close> "Preview string is too long", in both modes, and nothing of the
  font bytes is parsed before: the result is the same whatever the parser does. A preview
  string that is missing or empty is not rejected by this check, which the guard
  \<open>if preview_string:\<close> skips: validation passes and the font bytes are parsed next, so a
  parse error is what the request returns when the bytes are no font. An empty preview string
  selects no glyph.
\<close>

theorem preview_string_length_checked_before_parsing:
  assumes "fid \<in> set [''rasterizer'', ''rotorizer'', ''extruder'']"
      and "map_of (files req) ''font_file'' = Some f" and "filename f \<noteq> []"
      and "map_of (form req) ''preview_string'' = ps"
  shows "(\<forall>s. ps = Some s \<and> 30 < length s \<longrightarrow>
            process_font env fid req dl fs = (Inl (AssertionError ''Preview string is too long''), fs))
       \<and> (ps = None \<or> ps = Some [] \<longrightarrow>
            validate fid req = Inr (f, ps)
            \<and> (\<forall>e. TTFont env (file_content f) = Inl e \<longrightarrow> process_font env fid req dl fs = (Inl e, fs)))
       \<and> (set_iter env [] = [] \<longrightarrow> select_glyphs env False cm cr (Some []) = Inr [])"
proof (intro conjI allI impI)
  fix s
  assume "ps = Some s \<and> 30 < length s"
  with assms have "validate fid req = Inl (AssertionError ''Preview string is too long'')"
    by (auto simp: validate_def)
  then show "process_font env fid req dl fs = (Inl (AssertionError ''Preview string is too long''), fs)"
    by (intro process_font_prepare_Inl prepare_validate_Inl)
next
  assume "ps = None \<or> ps = Some []"
  with assms show v: "validate fid req = Inr (f, ps)"
    by (auto simp: validate_def)
  fix e
  assume "TTFont env (file_content f) = Inl e"
  with v show "process_font env fid req dl fs = (Inl e, fs)"
    by (intro process_font_prepare_Inl prepare_TTFont_Inl)
next
  assume "set_iter env [] = []"
  then show "select_glyphs env False cm cr (Some []) = Inr []"
    by (simp add: select_glyphs_def)
qed

theorem preview_string_length_checked_before_parsing_witness:
  "process_font demo_env ''rasterizer'' (demo_request [] (Some (replicate 31 65))) False Map.empty
     = (Inl (AssertionError ''Preview string is too long''), Map.empty)
   \<and> validate ''rasterizer'' (demo_request [] (Some []))
       = Inr (\<lparr>filename = [102], file_content = []\<rparr>, Some [])
   \<and> process_font demo_env ''rasterizer'' (demo_request [] (Some [])) False Map.empty
     = (Inl (ExternalError ''not a font''), Map.empty)
   \<and> select_glyphs demo_env False demo_cmap (reverse_cmap demo_cmap) (Some []) = Inr []"
proof -
  let ?f = "\<lparr>filename = [102], file_content = []\<rparr>"
  have fid: "''rasterizer'' \<in> set [''rasterizer'', ''rotorizer'', ''extruder'']" by simp
  have long: "map_of (files (demo_request [] (Some (replicate 31 65)))) ''font_file'' = Some ?f"
    "map_of (form (demo_request [] (Some (replicate 31 65)))) ''preview_string'' = Some (replicate 31 65)"
    by (simp_all add: demo_request_def)
  have empty: "map_of (files (demo_request [] (Some []))) ''font_file'' = Some ?f"
    "map_of (form (demo_request [] (Some []))) ''preview_string'' = Some []"
    by (simp_all add: demo_request_def)
  have nm: "filename ?f \<noteq> []" by simp
  have parse: "TTFont demo_env (file_content ?f) = Inl (ExternalError ''not a font'')"
    by (simp add: demo_env_def demo_bytes_def)
  have iter: "set_iter demo_env [] = []" by (simp add: demo_env_def)
  from preview_string_length_checked_before_parsing [OF fid long(1) nm long(2),
      of demo_env False Map.empty demo_cmap "reverse_cmap demo_cmap"]
    preview_string_length_checked_before_parsing [OF fid empty(1) nm empty(2),
      of demo_env False Map.empty demo_cmap "reverse_cmap demo_cmap"]
    parse iter
  show ?thesis by simp
qed

text \<open>
  The claim C3 as stated fails for the empty preview string: the preview request of the
  rasterizer on the test font is answered, with no font parsing skipped and no validation
  error; and a request with no preview string and bytes that are no font ends in the
  parser's error, not in a validation error raised before parsing.
\<close>

theorem empty_preview_string_is_processed:
  "fst (process_font demo_env ''rasterizer'' (demo_request demo_bytes (Some [])) False Map.empty)
     = Inr \<lparr>resp_fonts = [[2]], resp_warnings = Some [], resp_preview_string = Some []\<rparr>
   \<and> fst (process_font demo_env ''rasterizer'' (demo_request [] None) False Map.empty)
     = Inl (ExternalError ''not a font'')"
  by (simp add: process_font_def renamed_output_def run_defs demo_defs run_filter_def form_int_def
      rename_outputs_def suffix_name_map_def rename_font_def fonts_to_base64_def make_response_def
      missing_glyphs_of_def warnings_of_def)

section \<open>The closed glyph list\<close>

lemma extend_components_InrD:
  assumes "extend_components env t sel = Inr names"
  shows "\<exists>comps. get_components_in_subsetted_text env t sel = Inr comps \<and> names = sel @ map Some comps"
  using assms by (auto simp: extend_components_def bind_res_eq_Inr)







section \<open>The file written by \<open>process_font\<close>\<close>

lemma prepare_preview_has_string:
  assumes "prepare env fid req False = Inr l"
  shows "\<exists>s. preview_string l = Some s"
proof -
  from assms obtain f ps t cm sel names u where
    "validate fid req = Inr (f, ps)"
    "TTFont env (file_content f) = Inr t"
    "best_cmap t = Some cm" and
    sel: "select_glyphs env False cm (reverse_cmap cm) ps = Inr sel" and
    "extend_components env t sel = Inr names"
    "add_glyphs env fid t (reverse_cmap cm) names (new_ufo t False) = Inr u" and
    l: "l = \<lparr>font_file = file_content f, preview_string = ps, tt = t, cmap = cm,
             cmap_reversed = reverse_cmap cm, glyph_names_to_process = names, ufo_font = u\<rparr>"
    by (rule prepare_InrE)
  from sel obtain s where "ps = Some s"
    by (auto simp: select_glyphs_def split: option.splits)
  with l show ?thesis by simp
qed

lemma renamed_output_InrD:
  assumes "renamed_output env fid req dl = Inr (l, renamed)"
  shows "\<exists>output. prepare env fid req dl = Inr l \<and> run_filter env fid req l = Inr output
           \<and> rename_outputs env fid output = Inr renamed"
  using assms by (auto simp: renamed_output_def bind_res_eq_Inr)

lemma make_response_total:
  assumes "prepare env fid req dl = Inr l"
  shows "\<exists>resp. make_response dl l fonts = Inr resp"
proof (cases dl)
  case True
  then show ?thesis by (simp add: make_response_def)
next
  case False
  with assms prepare_preview_has_string [of env fid req l] show ?thesis
    by (auto simp: make_response_def Let_def)
qed

lemma process_font_InrD:
  assumes "process_font env fid req dl fs = (Inr resp, fs')"
  shows "\<exists>l first rest. renamed_output env fid req dl = Inr (l, first # rest)
           \<and> save env first ''output.ttf'' fs = (None, fs')
           \<and> make_response dl l (fonts_to_base64 env (first # rest)
                @ (if fid \<in> set [''extruder''] then [b64encode env (font_file l)] else [])) = Inr resp"
  using assms
  by (auto simp: process_font_def Let_def split: sum.splits prod.splits list.splits option.splits)

text \<open>
  Claim C5, as the program has it. The claim says that no run writes an output artifact to
  a fixed shared file name. The program does: every run that returns a response has first
  saved its first renamed output font under the name \<open>output.ttf\<close>, the same name for every
  request, and the files after the request are the files as that \<open>save\<close> left them.
\<close>

theorem every_response_follows_the_save_of_output_ttf:
  assumes "process_font env fid req dl fs = (Inr resp, fs')"
  shows "\<exists>l first rest. renamed_output env fid req dl = Inr (l, first # rest)
           \<and> save env first ''output.ttf'' fs = (None, fs')"
  using process_font_InrD [OF assms] by blast

theorem every_response_follows_the_save_of_output_ttf_witness:
  "snd (process_font demo_env ''rasterizer'' (demo_request demo_bytes (Some [65])) False Map.empty)
     = Map.empty(''output.ttf'' \<mapsto> [2])"
proof -
  let ?run = "process_font demo_env ''rasterizer'' (demo_request demo_bytes (Some [65])) False Map.empty"
  obtain resp where "fst ?run = Inr resp"
    by (simp add: process_font_def renamed_output_def run_defs demo_defs run_filter_def form_int_def
      rename_outputs_def suffix_name_map_def rename_font_def fonts_to_base64_def make_response_def
      missing_glyphs_of_def warnings_of_def)
  then have run: "?run = (Inr resp, snd ?run)"
    by (metis prod.collapse)
  have first: "renamed_output demo_env ''rasterizer'' (demo_request demo_bytes (Some [65])) False
      = Inr (l, first # rest) \<Longrightarrow> \<exists>t. first = OtherFont t" for l first rest
    by (auto simp: renamed_output_def run_filter_def form_int_def rename_outputs_def
      suffix_name_map_def rename_font_def demo_env_def bind_res_eq_Inr)
  have sv: "save demo_env (OtherFont t) name fs = (None, fs(name \<mapsto> [2]))" for t name fs
    by (simp add: demo_env_def)
  from every_response_follows_the_save_of_output_ttf [OF run] first sv show ?thesis
    by auto
qed

text \<open>
  The claim C5 as stated fails on a successful request: after the preview request of the
  rasterizer on the test font, with a \<open>save\<close> that writes the file it is given, \<open>output.ttf\<close>
  holds the saved font, and before the request there was no such file.
\<close>

theorem successful_run_writes_output_ttf:
  "snd (process_font demo_env ''rasterizer'' (demo_request demo_bytes (Some [65])) False Map.empty)
     ''output.ttf''
   = Some [2]
   \<and> (Map.empty :: file_system) ''output.ttf'' = None"
  by (simp add: process_font_def renamed_output_def run_defs demo_defs run_filter_def form_int_def
      rename_outputs_def suffix_name_map_def rename_font_def fonts_to_base64_def make_response_def
      missing_glyphs_of_def warnings_of_def)

section \<open>The preview response\<close>

lemma echo_filter:
  "filter (\<lambda>char. char \<notin> set (missing_glyphs_of cm s)) s
     = filter (\<lambda>c. map_of cm (py_ord c) \<noteq> None) s"
  by (rule filter_cong) (auto simp: missing_glyphs_of_def)

lemma missing_nonempty:
  "missing_glyphs_of cm s \<noteq> [] \<longleftrightarrow> (\<exists>c\<in>set s. map_of cm (py_ord c) = None)"
  by (auto simp: missing_glyphs_of_def filter_empty_conv)

text \<open>
  What the end of \<open>process_font\<close> returns for a preview request that gets that far: the
  warning with the unmapped characters, if there are any, and the preview string without
  them.
\<close>

lemma answered_preview_warnings_and_echo:
  assumes "process_font env fid req False fs = (Inr resp, fs')"
  shows "\<exists>f s t cm.
           map_of (files req) ''font_file'' = Some f
         \<and> map_of (form req) ''preview_string'' = Some s
         \<and> TTFont env (file_content f) = Inr t
         \<and> best_cmap t = Some cm
         \<and> resp_warnings resp
             = Some (if (\<exists>c\<in>set s. map_of cm (py_ord c) = None)
                     then [str_lit ''Your font is missing these characters: ''
                             @ join (str_lit '', '')
                                 (map (\<lambda>c. [c]) (filter (\<lambda>c. map_of cm (py_ord c) = None) s))]
                     else [])
         \<and> resp_preview_string resp = Some (filter (\<lambda>c. map_of cm (py_ord c) \<noteq> None) s)"
proof -
  from process_font_InrD [OF assms] obtain l first rest where
    ren: "renamed_output env fid req False = Inr (l, first # rest)" and
    resp: "make_response False l (fonts_to_base64 env (first # rest)
             @ (if fid \<in> set [''extruder''] then [b64encode env (font_file l)] else [])) = Inr resp"
    by blast
  from renamed_output_InrD [OF ren] have prep: "prepare env fid req False = Inr l"
    by blast
  then obtain f ps t cm sel names u where
    v: "validate fid req = Inr (f, ps)" and
    t: "TTFont env (file_content f) = Inr t" and
    cm: "best_cmap t = Some cm" and
    "select_glyphs env False cm (reverse_cmap cm) ps = Inr sel"
    "extend_components env t sel = Inr names"
    "add_glyphs env fid t (reverse_cmap cm) names (new_ufo t False) = Inr u" and
    l: "l = \<lparr>font_file = file_content f, preview_string = ps, tt = t, cmap = cm,
             cmap_reversed = reverse_cmap cm, glyph_names_to_process = names, ufo_font = u\<rparr>"
    by (rule prepare_InrE)
  have proj: "preview_string l = ps" "cmap l = cm"
    using l by simp_all
  from prepare_preview_has_string [OF prep] proj obtain s where s: "ps = Some s"
    by auto
  from validate_InrD [OF v] s have req: "map_of (files req) ''font_file'' = Some f"
    "map_of (form req) ''preview_string'' = Some s"
    by simp_all
  from resp s proj have
    w: "resp_warnings resp = Some (warnings_of (missing_glyphs_of cm s))" and
    e: "resp_preview_string resp = Some (filter (\<lambda>char. char \<notin> set (missing_glyphs_of cm s)) s)"
    by (auto simp: make_response_def Let_def)
  have w': "warnings_of (missing_glyphs_of cm s)
      = (if (\<exists>c\<in>set s. map_of cm (py_ord c) = None)
         then [str_lit ''Your font is missing these characters: ''
                 @ join (str_lit '', '')
                     (map (\<lambda>c. [c]) (filter (\<lambda>c. map_of cm (py_ord c) = None) s))]
         else [])"
    unfolding warnings_of_def missing_nonempty
    by (simp add: missing_glyphs_of_def)
  from req t cm w e show ?thesis
    unfolding w' echo_filter by blast
qed

text \<open>
  For the extruder no request with an unmapped character gets that far: the loop over the
  glyphs has raised \<open>KeyError\<close> for the \<open>None\<close> entry. So a preview response of the extruder
  never carries a warning.
\<close>

lemma extruder_preview_never_warns:
  assumes "process_font env ''extruder'' req False fs = (Inr resp, fs')"
      and "map_of (form req) ''preview_string'' = Some s"
      and "set (set_iter env s) = set s"
  shows "resp_warnings resp = Some [] \<and> resp_preview_string resp = Some s"
proof -
  from process_font_InrD [OF assms(1)] obtain l first rest where
    ren: "renamed_output env ''extruder'' req False = Inr (l, first # rest)"
    by blast
  from renamed_output_InrD [OF ren] have prep: "prepare env ''extruder'' req False = Inr l"
    by blast
  then obtain f ps t cm sel names u where
    v: "validate ''extruder'' req = Inr (f, ps)" and
    t: "TTFont env (file_content f) = Inr t" and
    cm: "best_cmap t = Some cm" and
    sel: "select_glyphs env False cm (reverse_cmap cm) ps = Inr sel" and
    ext: "extend_components env t sel = Inr names" and
    loop: "add_glyphs env ''extruder'' t (reverse_cmap cm) names (new_ufo t False) = Inr u" and
    l: "l = \<lparr>font_file = file_content f, preview_string = ps, tt = t, cmap = cm,
             cmap_reversed = reverse_cmap cm, glyph_names_to_process = names, ufo_font = u\<rparr>"
    by (rule prepare_InrE)
  from validate_InrD [OF v] assms(2) have ps: "ps = Some s"
    by simp
  from sel ps have sel': "sel = map (\<lambda>char. map_of cm (py_ord char)) (set_iter env s)"
    by (simp add: select_glyphs_def)
  from extend_components_InrD [OF ext] have sub: "set sel \<subseteq> set names"
    by auto
  have mapped: "map_of cm (py_ord c) \<noteq> None" if "c \<in> set s" for c
  proof -
    from that assms(3) sel' have "map_of cm (py_ord c) \<in> set sel"
      by auto
    with sub have "map_of cm (py_ord c) \<in> set names"
      by blast
    from add_glyphs_makes [OF loop this] obtain g where
      "make_glyph env ''extruder'' t (reverse_cmap cm) (map_of cm (py_ord c)) = Inr g"
      by blast
    from make_glyph_extruder [OF this] show ?thesis
      by auto
  qed
  from answered_preview_warnings_and_echo [OF assms(1)] obtain f' s' t' cm' where
    r: "map_of (files req) ''font_file'' = Some f'"
       "map_of (form req) ''preview_string'' = Some s'"
       "TTFont env (file_content f') = Inr t'"
       "best_cmap t' = Some cm'" and
    w: "resp_warnings resp
         = Some (if (\<exists>c\<in>set s'. map_of cm' (py_ord c) = None)
                 then [str_lit ''Your font is missing these characters: ''
                         @ join (str_lit '', '')
                             (map (\<lambda>c. [c]) (filter (\<lambda>c. map_of cm' (py_ord c) = None) s'))]
                 else [])" and
    e: "resp_preview_string resp = Some (filter (\<lambda>c. map_of cm' (py_ord c) \<noteq> None) s')"
    by blast
  from validate_InrD [OF v] r t cm assms(2) have same: "s' = s" "cm' = cm"
    by simp_all
  from mapped have none: "\<not> (\<exists>c\<in>set s. map_of cm (py_ord c) = None)"
    by blast
  from mapped have all: "filter (\<lambda>c. map_of cm (py_ord c) \<noteq> None) s = s"
    by (simp add: filter_id_conv)
  from w e show ?thesis
    unfolding same using none all by simp
qed

lemmas filter_defs =
  process_font_def renamed_output_def run_filter_def form_int_def rename_outputs_def
  suffix_name_map_def rename_font_def fonts_to_base64_def make_response_def
  missing_glyphs_of_def warnings_of_def widths_of_def merge_kerning_def

text \<open>
  Claim C7. For every preview request the warnings of the response are to hold the message
  "Your font is missing these characters: " with the unmapped characters exactly when some
  character of the preview string has no glyph in the font's cmap, and the echoed preview
  string is to be the input without the unmapped characters. The end of \<open>process_font\<close>
  computes just that, and the rasterizer's request on the test font with the preview string
  \<open>A\<close>, Euro sign is answered so. The same request for the extruder gets no response at
  all: it ends in the \<open>KeyError\<close> of \<open>hmtx.metrics[None]\<close>, by the defect of claim C1.
\<close>

theorem extruder_preview_with_unmapped_char_gets_no_response:
  "fst (process_font demo_env ''extruder'' (demo_request demo_bytes (Some [65, 8364])) False Map.empty)
     = Inl KeyError
   \<and> fst (process_font demo_env ''rasterizer'' (demo_request demo_bytes (Some [65, 8364])) False Map.empty)
     = Inr \<lparr>resp_fonts = [[2]],
            resp_warnings = Some [str_lit ''Your font is missing these characters: '' @ [8364]],
            resp_preview_string = Some [65]\<rparr>"
  by (simp add: filter_defs run_defs demo_defs)

section \<open>The renaming of the output fonts\<close>


lemma run_filter_extruder_InrD:
  assumes "run_filter env ''extruder'' req l = Inr out"
  shows "\<exists>angle kern font. form_int env req ''angle'' 330 = Inr angle
           \<and> extract_kerning_hb env (font_file l) (widths_of (tt l) (glyph_names_to_process l))
                (preview_string l) (cmap l) = Inr kern
           \<and> extrude_variable env
                (merge_kerning kern ((ufo_font l)\<lparr>info := extractOpenTypeInfo env (tt l) (info (ufo_font l))\<rparr>))
                (glyph_names_to_process l) angle = Inr font
           \<and> out = [font]"
  using assms by (auto simp: run_filter_def bind_res_eq_Inr Let_def)


lemma rename_outputs_extruder:
  "rename_outputs env ''extruder'' [font] = Inr [rename_font env font ''Extruded'']"
  by (simp add: rename_outputs_def suffix_name_map_def)

lemma rename_outputs_rotorizer:
  "rename_outputs env ''rotorizer'' [underlay, overlay]
     = Inr [rename_font env underlay ''Rotorized Underlay'', rename_font env overlay ''Rotorized Overlay'']"
  by (simp add: rename_outputs_def suffix_name_map_def)






section \<open>The fonts of the response\<close>

lemma make_response_fonts:
  assumes "make_response dl l fonts = Inr resp"
  shows "resp_fonts resp = fonts"
  using assms
  by (auto simp: make_response_def Let_def split: if_splits option.splits)

lemma prepare_font_file:
  assumes "prepare env fid req dl = Inr l"
  shows "\<exists>f. map_of (files req) ''font_file'' = Some f \<and> font_file l = file_content f
           \<and> preview_string l = map_of (form req) ''preview_string''"
proof -
  from assms obtain f ps t cm sel names u where
    v: "validate fid req = Inr (f, ps)" and
    "TTFont env (file_content f) = Inr t"
    "best_cmap t = Some cm"
    "select_glyphs env dl cm (reverse_cmap cm) ps = Inr sel"
    "extend_components env t sel = Inr names"
    "add_glyphs env fid t (reverse_cmap cm) names (new_ufo t dl) = Inr u" and
    l: "l = \<lparr>font_file = file_content f, preview_string = ps, tt = t, cmap = cm,
             cmap_reversed = reverse_cmap cm, glyph_names_to_process = names, ufo_font = u\<rparr>"
    by (rule prepare_InrE)
  from validate_InrD [OF v] l show ?thesis by simp
qed

text \<open>
  Claim C8. For every extruder request that is answered, the fonts of the response are the
  encoding of the one transformed font followed by the base64 encoding of the uploaded
  bytes as they came: two entries, the upload last. For the rasterizer and the rotorizer
  nothing is appended: the fonts are the encodings of the output fonts and nothing else.
\<close>

theorem extruder_response_ends_with_the_upload:
  assumes "process_font env fid req dl fs = (Inr resp, fs')"
  shows "\<exists>f l renamed.
           map_of (files req) ''font_file'' = Some f
         \<and> renamed_output env fid req dl = Inr (l, renamed)
         \<and> (if fid = ''extruder''
            then (\<exists>font. renamed = [font]
                    \<and> resp_fonts resp
                        = [b64encode env (compile_font env font), b64encode env (file_content f)])
                 \<and> length (resp_fonts resp) = 2
                 \<and> last (resp_fonts resp) = b64encode env (file_content f)
            else resp_fonts resp = fonts_to_base64 env renamed
                 \<and> length (resp_fonts resp) = length renamed)"
proof -
  from process_font_InrD [OF assms] obtain l first rest where
    ren: "renamed_output env fid req dl = Inr (l, first # rest)" and
    resp: "make_response dl l (fonts_to_base64 env (first # rest)
             @ (if fid \<in> set [''extruder''] then [b64encode env (font_file l)] else [])) = Inr resp"
    by blast
  from renamed_output_InrD [OF ren] obtain out where
    prep: "prepare env fid req dl = Inr l" and
    run: "run_filter env fid req l = Inr out" and
    rn: "rename_outputs env fid out = Inr (first # rest)"
    by blast
  from prepare_font_file [OF prep] obtain f where
    f: "map_of (files req) ''font_file'' = Some f" "font_file l = file_content f"
    by blast
  have fonts: "resp_fonts resp = fonts_to_base64 env (first # rest)
      @ (if fid \<in> set [''extruder''] then [b64encode env (font_file l)] else [])"
    using make_response_fonts [OF resp] .
  show ?thesis
  proof (cases "fid = ''extruder''")
    case True
    with run run_filter_extruder_InrD [of env req l out] obtain x where "out = [x]"
      by auto
    with rn True have "rest = []"
      by (simp add: rename_outputs_extruder)
    with True fonts f ren show ?thesis
      by (simp add: fonts_to_base64_def)
  next
    case False
    with fonts f ren show ?thesis
      by (simp add: fonts_to_base64_def)
  qed
qed

theorem extruder_response_ends_with_the_upload_witness:
  "map_sum id resp_fonts
      (fst (process_font demo_env ''extruder'' (demo_request demo_bytes (Some [65, 66])) False Map.empty))
     = Inr [[1], demo_bytes]
   \<and> map_sum id resp_fonts
      (fst (process_font demo_env ''rotorizer'' (demo_request demo_bytes (Some [65, 66])) False Map.empty))
     = Inr [[1], [1]]"
proof -
  let ?req = "demo_request demo_bytes (Some [65, 66])"
  let ?e = "process_font demo_env ''extruder'' ?req False Map.empty"
  let ?r = "process_font demo_env ''rotorizer'' ?req False Map.empty"
  obtain re where re: "fst ?e = Inr re"
    by (simp add: filter_defs run_defs demo_defs bind_res_def)
  obtain rr where rr: "fst ?r = Inr rr"
    by (simp add: filter_defs run_defs demo_defs)
  have e: "?e = (Inr re, snd ?e)" using re by (metis prod.collapse)
  have r: "?r = (Inr rr, snd ?r)" using rr by (metis prod.collapse)
  have upl: "map_of (files ?req) ''font_file'' = Some \<lparr>filename = [102], file_content = demo_bytes\<rparr>"
    by (simp add: demo_request_def)
  have enc: "b64encode demo_env b = b" "compile_font demo_env (DefconFont u) = [1]" for b u
    by (simp_all add: demo_env_def)
  have two: "renamed_output demo_env ''rotorizer'' ?req False = Inr (l, renamed)
      \<Longrightarrow> \<exists>u v. renamed = [DefconFont u, DefconFont v]" for l renamed
    by (auto simp: renamed_output_def run_filter_def form_int_def rename_outputs_def
        suffix_name_map_def rename_font_def demo_env_def bind_res_eq_Inr)
  have one: "renamed_output demo_env ''extruder'' ?req False = Inr (l, [font])
      \<Longrightarrow> \<exists>u. font = DefconFont u" for l font
    by (auto simp: renamed_output_def run_filter_def form_int_def rename_outputs_def
        suffix_name_map_def rename_font_def demo_env_def bind_res_eq_Inr Let_def)
  from extruder_response_ends_with_the_upload [OF e] upl one
  have "resp_fonts re = [[1], demo_bytes]"
    by (auto simp: enc)
  moreover
  from extruder_response_ends_with_the_upload [OF r] two
  have "resp_fonts rr = [[1], [1]]"
    by (auto simp: enc fonts_to_base64_def)
  ultimately show ?thesis
    using re rr by simp
qed

section \<open>What the extruder is given\<close>








end
